theory Spec2Isabelle
  imports Complex_Main "HOL-Library.Word"
begin

section \<open>Python values used by the detector\<close>

text \<open>
  The exceptions that the modelled code can meet. All of them are subclasses of Python's
  \<open>Exception\<close>, so every \<open>except Exception\<close> clause of the source catches each of them.
  \<open>LibraryError\<close> stands for whatever OpenCV or MediaPipe raise (\<open>cv2.error\<close> and the like).
\<close>

datatype py_exception = IndexError | ValueError | OverflowError | LibraryError

text \<open>
  A Python \<open>float\<close>: a finite double (the rational it denotes), an infinity or a NaN.
  Comparisons of doubles are exact, so they are comparisons of the denoted rationals;
  every comparison with a NaN is false. Signed zeros are not distinguished (no operation
  of the source tells them apart).
\<close>

datatype pyfloat = Fin rat | PosInf | NegInf | NaN

fun float_lt :: "pyfloat \<Rightarrow> pyfloat \<Rightarrow> bool" where
  "float_lt (Fin a) (Fin b) = (a < b)"
| "float_lt (Fin a) PosInf = True"
| "float_lt NegInf (Fin b) = True"
| "float_lt NegInf PosInf = True"
| "float_lt _ _ = False"

definition float_gt :: "pyfloat \<Rightarrow> pyfloat \<Rightarrow> bool" where
  "float_gt a b = float_lt b a"

text \<open>Python's \<open>==\<close> on floats: a NaN equals nothing, itself included.\<close>

definition float_eq :: "pyfloat \<Rightarrow> pyfloat \<Rightarrow> bool" where
  "float_eq a b = (a \<noteq> NaN \<and> a = b)"

text \<open>
  Arithmetic on doubles rounds. The rounding of an exact rational result to a double
  (which may overflow to an infinity) is a parameter \<open>rnd\<close> of every function that
  computes with floats; nothing is assumed about it.
\<close>

type_synonym rounding = "rat \<Rightarrow> pyfloat"

fun float_sub :: "rounding \<Rightarrow> pyfloat \<Rightarrow> pyfloat \<Rightarrow> pyfloat" where
  "float_sub rnd (Fin a) (Fin b) = rnd (a - b)"
| "float_sub rnd NaN _ = NaN"
| "float_sub rnd _ NaN = NaN"
| "float_sub rnd PosInf PosInf = NaN"
| "float_sub rnd NegInf NegInf = NaN"
| "float_sub rnd PosInf _ = PosInf"
| "float_sub rnd NegInf _ = NegInf"
| "float_sub rnd (Fin a) PosInf = NegInf"
| "float_sub rnd (Fin a) NegInf = PosInf"

fun float_abs :: "pyfloat \<Rightarrow> pyfloat" where
  "float_abs (Fin a) = Fin \<bar>a\<bar>"
| "float_abs PosInf = PosInf"
| "float_abs NegInf = PosInf"
| "float_abs NaN = NaN"

text \<open>\<open>f * n\<close> for a float \<open>f\<close> and a non-negative \<open>int\<close> \<open>n\<close> (an image dimension).\<close>

fun float_mul_int :: "rounding \<Rightarrow> pyfloat \<Rightarrow> nat \<Rightarrow> pyfloat" where
  "float_mul_int rnd (Fin a) n = rnd (a * of_nat n)"
| "float_mul_int rnd NaN n = NaN"
| "float_mul_int rnd PosInf n = (if n = 0 then NaN else PosInf)"
| "float_mul_int rnd NegInf n = (if n = 0 then NaN else NegInf)"

text \<open>
  \<open>int(f)\<close>: truncation towards zero; \<open>ValueError\<close> on a NaN, \<open>OverflowError\<close> on an
  infinity.
\<close>

fun py_int :: "pyfloat \<Rightarrow> py_exception + int" where
  "py_int (Fin a) = Inr (if a < 0 then \<lceil>a\<rceil> else \<lfloor>a\<rfloor>)"
| "py_int PosInf = Inl OverflowError"
| "py_int NegInf = Inl OverflowError"
| "py_int NaN = Inl ValueError"

text \<open>Sequencing of statements that may raise: the first exception ends the block.\<close>

definition bind_exc :: "py_exception + 'a \<Rightarrow> ('a \<Rightarrow> py_exception + 'b) \<Rightarrow> py_exception + 'b" where
  "bind_exc m f = (case m of Inl e \<Rightarrow> Inl e | Inr v \<Rightarrow> f v)"

text \<open>\<open>xs[i]\<close> for a literal index \<open>i \<ge> 0\<close>: \<open>IndexError\<close> beyond the end.\<close>

definition py_index :: "'a list \<Rightarrow> nat \<Rightarrow> py_exception + 'a" where
  "py_index xs i = (if i < length xs then Inr (xs ! i) else Inl IndexError)"

section \<open>Landmarks and the gesture classifier (main.py)\<close>

text \<open>
  A MediaPipe landmark with its fields \<open>x\<close>, \<open>y\<close>, \<open>z\<close> (here \<open>lm_x\<close>, \<open>lm_y\<close>, \<open>lm_z\<close>).
  A hand is the list \<open>hand_landmarks.landmark\<close>.
\<close>

record landmark =
  lm_x :: pyfloat
  lm_y :: pyfloat
  lm_z :: pyfloat

text \<open>
  The \<open>try\<close> block of \<open>FingerBanDetector.is_middle_finger_up\<close>, statement by statement.
  \<open>thumb_folded\<close> is computed as in the source and, as in the source, not used.
\<close>

definition is_middle_finger_up_body :: "rounding \<Rightarrow> landmark list \<Rightarrow> py_exception + bool" where
  "is_middle_finger_up_body rnd landmarks =
     bind_exc (py_index landmarks 4) (\<lambda>thumb_tip.
     bind_exc (py_index landmarks 3) (\<lambda>thumb_ip.
     bind_exc (py_index landmarks 8) (\<lambda>index_tip.
     bind_exc (py_index landmarks 6) (\<lambda>index_pip.
     bind_exc (py_index landmarks 12) (\<lambda>middle_tip.
     bind_exc (py_index landmarks 10) (\<lambda>middle_pip.
     bind_exc (py_index landmarks 16) (\<lambda>ring_tip.
     bind_exc (py_index landmarks 14) (\<lambda>ring_pip.
     bind_exc (py_index landmarks 20) (\<lambda>pinky_tip.
     bind_exc (py_index landmarks 18) (\<lambda>pinky_pip.
       let middle_extended = float_lt (lm_y middle_tip) (lm_y middle_pip);
           index_folded = float_gt (lm_y index_tip) (lm_y index_pip);
           ring_folded = float_gt (lm_y ring_tip) (lm_y ring_pip);
           pinky_folded = float_gt (lm_y pinky_tip) (lm_y pinky_pip);
           thumb_folded =
             float_lt (float_abs (float_sub rnd (lm_x thumb_tip) (lm_x thumb_ip))) (Fin (1 / 20))
       in Inr (middle_extended \<and> index_folded \<and> ring_folded \<and> pinky_folded)))))))))))"

text \<open>
  The whole method: \<open>except Exception\<close> turns every exception of the block into the
  result \<open>False\<close>. The result \<open>Inr True\<close> is the verdict Flagged, \<open>Inr False\<close> the verdict
  Normal, and \<open>Inl e\<close> would be an exception reaching the caller.
\<close>

definition is_middle_finger_up :: "rounding \<Rightarrow> landmark list \<Rightarrow> py_exception + bool" where
  "is_middle_finger_up rnd landmarks =
     (case is_middle_finger_up_body rnd landmarks of
        Inr verdict \<Rightarrow> Inr verdict
      | Inl e \<Rightarrow> Inr False)"

section \<open>The demonstration data and classifier (setup\_check.py)\<close>

text \<open>The two literal hands of \<open>demo_mode\<close>, as lists of \<open>(x, y)\<close> pairs.\<close>

definition middle_finger_landmarks :: "(rat \<times> rat) list" where
  "middle_finger_landmarks =
     [(0.5, 0.8),
      (0.45, 0.75), (0.42, 0.72), (0.39, 0.69), (0.36, 0.66),
      (0.48, 0.65), (0.47, 0.55), (0.46, 0.50), (0.47, 0.58),
      (0.52, 0.65), (0.52, 0.45), (0.52, 0.25), (0.52, 0.15),
      (0.56, 0.65), (0.57, 0.55), (0.58, 0.50), (0.59, 0.58),
      (0.60, 0.67), (0.62, 0.58), (0.63, 0.53), (0.64, 0.60)]"

definition normal_hand_landmarks :: "(rat \<times> rat) list" where
  "normal_hand_landmarks =
     [(0.5, 0.8),
      (0.45, 0.75), (0.42, 0.72), (0.39, 0.69), (0.36, 0.66),
      (0.48, 0.65), (0.47, 0.55), (0.46, 0.45), (0.45, 0.35),
      (0.52, 0.65), (0.52, 0.55), (0.52, 0.45), (0.52, 0.35),
      (0.56, 0.65), (0.57, 0.55), (0.58, 0.45), (0.59, 0.35),
      (0.60, 0.67), (0.62, 0.58), (0.63, 0.48), (0.64, 0.38)]"

text \<open>
  \<open>is_middle_finger_gesture_demo\<close>: the same comparisons on the pairs' second components.
  It has no \<open>try\<close>: an \<open>IndexError\<close> reaches the caller.
\<close>

definition is_middle_finger_gesture_demo :: "(rat \<times> rat) list \<Rightarrow> py_exception + bool" where
  "is_middle_finger_gesture_demo landmarks =
     bind_exc (py_index landmarks 8) (\<lambda>index_tip.
     bind_exc (py_index landmarks 6) (\<lambda>index_pip.
     bind_exc (py_index landmarks 12) (\<lambda>middle_tip.
     bind_exc (py_index landmarks 10) (\<lambda>middle_pip.
     bind_exc (py_index landmarks 16) (\<lambda>ring_tip.
     bind_exc (py_index landmarks 14) (\<lambda>ring_pip.
     bind_exc (py_index landmarks 20) (\<lambda>pinky_tip.
     bind_exc (py_index landmarks 18) (\<lambda>pinky_pip.
       let middle_extended = snd middle_tip < snd middle_pip;
           index_folded = snd index_tip > snd index_pip;
           ring_folded = snd ring_tip > snd ring_pip;
           pinky_folded = snd pinky_tip > snd pinky_pip
       in Inr (middle_extended \<and> index_folded \<and> ring_folded \<and> pinky_folded)))))))))"

text \<open>A demo pair as a MediaPipe landmark (with \<open>z = 0\<close>), to give the demo hands to the detector.\<close>

definition as_landmark :: "rat \<times> rat \<Rightarrow> landmark" where
  "as_landmark p = \<lparr>lm_x = Fin (fst p), lm_y = Fin (snd p), lm_z = Fin 0\<rparr>"

text \<open>Exact arithmetic, for evaluating on inputs whose results are doubles already.\<close>

definition exact :: rounding where
  "exact = Fin"

section \<open>Frames and the region redactor (main.py)\<close>

text \<open>
  A frame is a numpy array of shape \<open>(h, w, c)\<close> of bytes: its three dimensions and the
  value at row \<open>y\<close>, column \<open>x\<close>, channel \<open>c\<close>. Values at positions outside the shape
  are not part of the array; no function below reads or writes them.
\<close>

record image =
  img_h :: nat
  img_w :: nat
  img_c :: nat
  img_data :: "nat \<Rightarrow> nat \<Rightarrow> nat \<Rightarrow> 8 word"

text \<open>\<open>array.size\<close>: the number of elements.\<close>

definition img_size :: "image \<Rightarrow> nat" where
  "img_size a = img_h a * img_w a * img_c a"

text \<open>
  A list comprehension whose element expression may raise: the first exception ends it.
\<close>

fun map_exc :: "('a \<Rightarrow> py_exception + 'b) \<Rightarrow> 'a list \<Rightarrow> py_exception + 'b list" where
  "map_exc f [] = Inr []"
| "map_exc f (a # as) = bind_exc (f a) (\<lambda>b. bind_exc (map_exc f as) (\<lambda>bs. Inr (b # bs)))"

text \<open>\<open>min(xs)\<close> and \<open>max(xs)\<close> of a list of ints: \<open>ValueError\<close> on the empty list.\<close>

fun py_min :: "int list \<Rightarrow> py_exception + int" where
  "py_min [] = Inl ValueError"
| "py_min (x # xs) = Inr (fold min xs x)"

fun py_max :: "int list \<Rightarrow> py_exception + int" where
  "py_max [] = Inl ValueError"
| "py_max (x # xs) = Inr (fold max xs x)"

text \<open>
  Lines 68 to 75 of \<open>blur_hand_region\<close>: the landmarks in pixels, their extremes, the
  padding of 50 and the clamping. The result is \<open>(x_min, y_min, x_max, y_max)\<close>.
\<close>

definition hand_bounding_box ::
  "rounding \<Rightarrow> image \<Rightarrow> landmark list \<Rightarrow> py_exception + (int \<times> int \<times> int \<times> int)" where
  "hand_bounding_box rnd img landmarks =
     (let h = img_h img; w = img_w img in
      bind_exc (map_exc (\<lambda>landmark. py_int (float_mul_int rnd (lm_x landmark) w)) landmarks) (\<lambda>x_coords.
      bind_exc (map_exc (\<lambda>landmark. py_int (float_mul_int rnd (lm_y landmark) h)) landmarks) (\<lambda>y_coords.
      bind_exc (py_min x_coords) (\<lambda>x_lo.
      bind_exc (py_max x_coords) (\<lambda>x_hi.
      bind_exc (py_min y_coords) (\<lambda>y_lo.
      bind_exc (py_max y_coords) (\<lambda>y_hi.
        let x_min = max 0 (x_lo - 50); x_max = min (int w) (x_hi + 50);
            y_min = max 0 (y_lo - 50); y_max = min (int h) (y_hi + 50)
        in Inr (x_min, y_min, x_max, y_max))))))))"

text \<open>
  One bound of a slice \<open>a:b\<close> along an axis of length \<open>n\<close>, as Python normalises it: a
  negative bound counts from the end, and the result is clipped to \<open>0..n\<close>.
\<close>

definition slice_bound :: "int \<Rightarrow> nat \<Rightarrow> nat" where
  "slice_bound i n =
     (if i < 0 then (if i + int n < 0 then 0 else nat (i + int n))
      else if int n \<le> i then n else nat i)"

text \<open>The first index and the length of the slice \<open>a:b\<close> along an axis of length \<open>n\<close>.\<close>

definition slice_start :: "int \<Rightarrow> nat \<Rightarrow> nat" where
  "slice_start a n = slice_bound a n"

definition slice_len :: "int \<Rightarrow> int \<Rightarrow> nat \<Rightarrow> nat" where
  "slice_len a b n =
     (if slice_bound a n < slice_bound b n then slice_bound b n - slice_bound a n else 0)"

text \<open>\<open>image[y0:y1, x0:x1]\<close>: the sub-array (a view; it is only read).\<close>

definition slice2 :: "image \<Rightarrow> int \<Rightarrow> int \<Rightarrow> int \<Rightarrow> int \<Rightarrow> image" where
  "slice2 img y0 y1 x0 x1 =
     \<lparr>img_h = slice_len y0 y1 (img_h img),
      img_w = slice_len x0 x1 (img_w img),
      img_c = img_c img,
      img_data = (\<lambda>y x c.
        img_data img (slice_start y0 (img_h img) + y) (slice_start x0 (img_w img) + x) c)\<rparr>"

text \<open>
  \<open>image[y0:y1, x0:x1] = value\<close> for a three-dimensional \<open>value\<close>: numpy broadcasts
  \<open>value\<close> to the shape of the slice (each dimension equal, or 1 and repeated) and raises
  \<open>ValueError\<close> before writing anything when it cannot. The array keeps its shape.
\<close>

definition broadcasts :: "nat \<Rightarrow> nat \<Rightarrow> bool" where
  "broadcasts v t = (v = t \<or> v = 1)"

definition assign_slice2 ::
  "image \<Rightarrow> int \<Rightarrow> int \<Rightarrow> int \<Rightarrow> int \<Rightarrow> image \<Rightarrow> py_exception + image" where
  "assign_slice2 img y0 y1 x0 x1 v =
     (let ys = slice_start y0 (img_h img); yn = slice_len y0 y1 (img_h img);
          xs = slice_start x0 (img_w img); xn = slice_len x0 x1 (img_w img)
      in if broadcasts (img_h v) yn \<and> broadcasts (img_w v) xn \<and> broadcasts (img_c v) (img_c img)
         then Inr (img\<lparr>img_data := (\<lambda>y x c.
                if ys \<le> y \<and> y < ys + yn \<and> xs \<le> x \<and> x < xs + xn \<and> c < img_c img
                then img_data v (if img_h v = 1 then 0 else y - ys)
                                (if img_w v = 1 then 0 else x - xs)
                                (if img_c v = 1 then 0 else c)
                else img_data img y x c)\<rparr>)
         else Inl ValueError)"

text \<open>
  \<open>cv2.GaussianBlur(region, (k, k), 0)\<close> is OpenCV's: a parameter. It returns an array
  or raises (as it does for a \<open>k\<close> that is even or not positive).
\<close>

type_synonym blur = "image \<Rightarrow> int \<Rightarrow> py_exception + image"

text \<open>The \<open>try\<close> block of \<open>FingerBanDetector.blur_hand_region\<close>.\<close>

definition blur_hand_region_body ::
  "rounding \<Rightarrow> blur \<Rightarrow> image \<Rightarrow> landmark list \<Rightarrow> int \<Rightarrow> py_exception + image" where
  "blur_hand_region_body rnd gaussian_blur img landmarks blur_intensity =
     bind_exc (hand_bounding_box rnd img landmarks) (\<lambda>(x_min, y_min, x_max, y_max).
       let hand_region = slice2 img y_min y_max x_min x_max in
       if img_size hand_region > 0
       then bind_exc (gaussian_blur hand_region blur_intensity) (\<lambda>blurred_region.
              assign_slice2 img y_min y_max x_min x_max blurred_region)
       else Inr img)"

text \<open>
  The whole method. The array is changed in place by the last statement of the block
  only, which raises before it writes or not at all; so the \<open>image\<close> that the \<open>except\<close>
  clause returns is the array as it was passed in. The parameter \<open>image\<close> of the
  source is \<open>img\<close> here.
\<close>

definition blur_hand_region ::
  "rounding \<Rightarrow> blur \<Rightarrow> image \<Rightarrow> landmark list \<Rightarrow> int \<Rightarrow> py_exception + image" where
  "blur_hand_region rnd gaussian_blur img landmarks blur_intensity =
     (case blur_hand_region_body rnd gaussian_blur img landmarks blur_intensity of
        Inr img' \<Rightarrow> Inr img'
      | Inl e \<Rightarrow> Inr img)"

section \<open>Frame processing and the capture loop (main.py)\<close>

text \<open>
  The collaborators of \<open>process_frame\<close>: float rounding, \<open>cv2.GaussianBlur\<close>, the
  \<open>cv2.putText\<close> of the warning and MediaPipe's \<open>draw_landmarks\<close>. The drawing calls
  change the frame or raise; one that raises is taken to have drawn nothing.
\<close>

record externals =
  ext_rnd :: rounding
  ext_blur :: blur
  ext_put_text :: "image \<Rightarrow> py_exception + image"
  ext_draw_landmarks :: "image \<Rightarrow> landmark list \<Rightarrow> py_exception + image"

text \<open>
  The \<open>for\<close> loop over \<open>results.multi_hand_landmarks\<close>: the frame so far and
  \<open>middle_finger_detected\<close> so far. It yields the frame and either the flag or the
  exception that ended the loop.
\<close>

fun process_hands ::
  "externals \<Rightarrow> image \<Rightarrow> bool \<Rightarrow> landmark list list \<Rightarrow> image \<times> (py_exception + bool)" where
  "process_hands ext frame middle_finger_detected [] = (frame, Inr middle_finger_detected)"
| "process_hands ext frame middle_finger_detected (hand_landmarks # rest) =
     (case is_middle_finger_up (ext_rnd ext) hand_landmarks of
        Inl e \<Rightarrow> (frame, Inl e)
      | Inr True \<Rightarrow>
          (case blur_hand_region (ext_rnd ext) (ext_blur ext) frame hand_landmarks 51 of
             Inl e \<Rightarrow> (frame, Inl e)
           | Inr frame1 \<Rightarrow>
               (case ext_put_text ext frame1 of
                  Inl e \<Rightarrow> (frame1, Inl e)
                | Inr frame2 \<Rightarrow> process_hands ext frame2 True rest))
      | Inr False \<Rightarrow>
          (case ext_draw_landmarks ext frame hand_landmarks of
             Inl e \<Rightarrow> (frame, Inl e)
           | Inr frame1 \<Rightarrow> process_hands ext frame1 middle_finger_detected rest))"

text \<open>
  \<open>FingerBanDetector.process_frame\<close>. \<open>provided\<close> is what the colour conversion and
  \<open>self.hands.process\<close> gave for this frame: the hands (none for \<open>None\<close>) or an exception.
  Every exception ends in \<open>return frame, False\<close>.
\<close>

definition process_frame ::
  "externals \<Rightarrow> image \<Rightarrow> py_exception + landmark list list \<Rightarrow> py_exception + image \<times> bool" where
  "process_frame ext frame provided =
     (case provided of
        Inl e \<Rightarrow> Inr (frame, False)
      | Inr multi_hand_landmarks \<Rightarrow>
          (case process_hands ext frame False multi_hand_landmarks of
             (frame', Inr middle_finger_detected) \<Rightarrow> Inr (frame', middle_finger_detected)
           | (frame', Inl e) \<Rightarrow> Inr (frame', False)))"

text \<open>
  What the outside world gives to one iteration of the \<open>while True\<close> loop of \<open>main\<close>:
  the results of \<open>cap.read()\<close>, of \<open>cv2.flip\<close>, of the landmark provider, of the overlay
  and \<open>cv2.imshow\<close> calls, and of \<open>cv2.waitKey(1)\<close>.
\<close>

record tick =
  t_read :: "py_exception + bool \<times> image"
  t_flip :: "py_exception + image"
  t_hands :: "py_exception + landmark list list"
  t_show :: "py_exception + unit"
  t_wait_key :: "py_exception + int"

text \<open>
  One iteration: \<open>detection_count\<close> after it, and whether the loop goes on (it ends on
  \<open>break\<close> and on any exception, which the \<open>try\<close> around the loop catches).
  \<open>ord('q') = 113\<close>, \<open>ord('r') = 114\<close>. An interrupt from the keyboard, which may
  arrive at any point, is not modelled.
\<close>

definition loop_iteration :: "externals \<Rightarrow> int \<Rightarrow> tick \<Rightarrow> int \<times> bool" where
  "loop_iteration ext detection_count t =
     (case t_read t of
        Inl e \<Rightarrow> (detection_count, False)
      | Inr (ret, frame0) \<Rightarrow>
          if \<not> ret then (detection_count, False)
          else
            (case t_flip t of
               Inl e \<Rightarrow> (detection_count, False)
             | Inr frame \<Rightarrow>
                 (case process_frame ext frame (t_hands t) of
                    Inl e \<Rightarrow> (detection_count, False)
                  | Inr (processed_frame, detected) \<Rightarrow>
                      let detection_count1 =
                            (if detected then detection_count + 1 else detection_count)
                      in (case t_show t of
                            Inl e \<Rightarrow> (detection_count1, False)
                          | Inr u \<Rightarrow>
                              (case t_wait_key t of
                                 Inl e \<Rightarrow> (detection_count1, False)
                               | Inr k \<Rightarrow>
                                   let key = and k 255 in
                                   if key = 113 then (detection_count1, False)
                                   else if key = 114 then (0, True)
                                   else (detection_count1, True))))))"

text \<open>
  The loop on the iterations the outside world gives it: \<open>detection_count\<close> when the
  loop has ended or the iterations are used up.
\<close>

fun main_loop :: "externals \<Rightarrow> int \<Rightarrow> tick list \<Rightarrow> int" where
  "main_loop ext detection_count [] = detection_count"
| "main_loop ext detection_count (t # ts) =
     (case loop_iteration ext detection_count t of
        (c, True) \<Rightarrow> main_loop ext c ts
      | (c, False) \<Rightarrow> c)"

text \<open>\<open>main\<close> starts the loop with \<open>detection_count = 0\<close>.\<close>

definition main_count :: "externals \<Rightarrow> tick list \<Rightarrow> int" where
  "main_count ext ticks = main_loop ext 0 ticks"

section \<open>The session counter as the specification words it\<close>

text \<open>
  What the specification's \<open>DetectionSession\<close> sees: a processed frame with its
  "any flagged" signal, or a reset signal. \<open>spec_counter\<close> follows the specification's
  words: plus one for a frame with one or more flagged hands, plus nothing for a frame
  with none, zero on a reset whatever the value was.
\<close>

datatype event = FrameProcessed bool | ResetSignal

fun spec_counter :: "int \<Rightarrow> event list \<Rightarrow> int" where
  "spec_counter c [] = c"
| "spec_counter c (FrameProcessed any_flagged # es) =
     spec_counter (if any_flagged then c + 1 else c) es"
| "spec_counter c (ResetSignal # es) = spec_counter 0 es"

text \<open>
  The events of the loop of \<open>main\<close>, read off its control flow. \<open>frame_outcome\<close>: the flag
  that \<open>process_frame\<close> returned in this iteration, if the iteration got that far.
\<close>

definition frame_outcome :: "externals \<Rightarrow> tick \<Rightarrow> bool option" where
  "frame_outcome ext t =
     (case t_read t of
        Inl e \<Rightarrow> None
      | Inr (ret, frame0) \<Rightarrow>
          if \<not> ret then None
          else (case t_flip t of
                  Inl e \<Rightarrow> None
                | Inr frame \<Rightarrow>
                    (case process_frame ext frame (t_hands t) of
                       Inl e \<Rightarrow> None
                     | Inr (processed_frame, detected) \<Rightarrow> Some detected)))"

text \<open>\<open>key_outcome\<close>: \<open>cv2.waitKey(1) & 0xFF\<close>, if the display calls and \<open>waitKey\<close> returned.\<close>

definition key_outcome :: "tick \<Rightarrow> int option" where
  "key_outcome t =
     (case t_show t of
        Inl e \<Rightarrow> None
      | Inr u \<Rightarrow> (case t_wait_key t of Inl e \<Rightarrow> None | Inr k \<Rightarrow> Some (and k 255)))"

text \<open>
  The events of one iteration and whether the loop goes on: a frame event when a frame
  was processed, then a reset event when the key read is \<open>r\<close> (114); \<open>q\<close> (113) and
  every exception end the loop.
\<close>

definition iteration_events :: "externals \<Rightarrow> tick \<Rightarrow> event list \<times> bool" where
  "iteration_events ext t =
     (case frame_outcome ext t of
        None \<Rightarrow> ([], False)
      | Some detected \<Rightarrow>
          (case key_outcome t of
             None \<Rightarrow> ([FrameProcessed detected], False)
           | Some key \<Rightarrow>
               if key = 113 then ([FrameProcessed detected], False)
               else if key = 114 then ([FrameProcessed detected, ResetSignal], True)
               else ([FrameProcessed detected], True)))"

fun loop_events :: "externals \<Rightarrow> tick list \<Rightarrow> event list" where
  "loop_events ext [] = []"
| "loop_events ext (t # ts) =
     (case iteration_events ext t of
        (es, True) \<Rightarrow> es @ loop_events ext ts
      | (es, False) \<Rightarrow> es)"

section \<open>Concrete inputs\<close>

text \<open>
  Hands on which the statements below are evaluated. \<open>tie_hand\<close> is the flagged hand of
  the demonstration with its index tip at the height of its index PIP (landmark 6).
  The comments of the demonstration name as "pip" the third point of each finger
  (landmarks 7, 11, 15, 19), while both classifiers read landmarks 6, 10, 14, 18;
  \<open>scenario_a_hand\<close> and \<open>scenario_b_hand\<close> carry the commented values at the landmarks
  that are read.
\<close>

definition tie_hand :: "landmark list" where
  "tie_hand = (map as_landmark middle_finger_landmarks)[8 := as_landmark (0.47, 0.55)]"

definition scenario_a_hand :: "landmark list" where
  "scenario_a_hand =
     (map as_landmark middle_finger_landmarks)
       [6 := as_landmark (0.47, 0.50), 10 := as_landmark (0.52, 0.25),
        14 := as_landmark (0.57, 0.50), 18 := as_landmark (0.62, 0.53)]"

definition scenario_b_hand :: "landmark list" where
  "scenario_b_hand =
     (map as_landmark normal_hand_landmarks)
       [6 := as_landmark (0.47, 0.45), 10 := as_landmark (0.52, 0.45)]"

text \<open>
  A hand of 21 points near the right edge of a frame, in sixty-fourths so that every
  product with 640 and 480 is a whole number and an exact double. It shows the gesture.
\<close>

definition edge_hand_points :: "(rat \<times> rat) list" where
  "edge_hand_points =
     [(60/64, 52/64),
      (57/64, 48/64), (55/64, 46/64), (53/64, 44/64), (51/64, 42/64),
      (58/64, 42/64), (58/64, 36/64), (58/64, 32/64), (58/64, 38/64),
      (60/64, 42/64), (60/64, 30/64), (60/64, 16/64), (60/64, 10/64),
      (62/64, 42/64), (62/64, 36/64), (62/64, 32/64), (62/64, 38/64),
      (63/64, 44/64), (63/64, 38/64), (63/64, 34/64), (63/64, 40/64)]"

definition edge_hand :: "landmark list" where
  "edge_hand = map as_landmark edge_hand_points"

text \<open>The same hand moved left by 1.25 frame widths: every landmark is left of the frame.\<close>

definition offscreen_hand :: "landmark list" where
  "offscreen_hand = map (\<lambda>p. as_landmark (fst p - 80/64, snd p)) edge_hand_points"

text \<open>A frame of 640 by 480 pixels and 3 channels whose values change from pixel to pixel.\<close>

definition camera_frame :: image where
  "camera_frame = \<lparr>img_h = 480, img_w = 640, img_c = 3,
                    img_data = (\<lambda>y x c. of_nat (x + y + c))\<rparr>"

text \<open>
  An instance of the blur parameter for the evaluations: like \<open>cv2.GaussianBlur\<close> it
  raises for a kernel size that is even or not positive; otherwise it returns an array
  of the region's shape, here with the region's first pixel everywhere.
\<close>

definition flatten_blur :: blur where
  "flatten_blur region k =
     (if k \<le> 0 \<or> even k then Inl LibraryError
      else Inr (region\<lparr>img_data := (\<lambda>y x c. img_data region 0 0 c)\<rparr>))"

text \<open>
  Collaborators whose drawing calls draw nothing and never raise, and an iteration of
  the loop that reads \<open>camera_frame\<close>, is given \<open>hands\<close> by the provider and reads the key
  code \<open>k\<close> (\<open>-1\<close>: no key).
\<close>

definition quiet_externals :: externals where
  "quiet_externals =
     \<lparr>ext_rnd = exact, ext_blur = flatten_blur,
      ext_put_text = (\<lambda>frame. Inr frame),
      ext_draw_landmarks = (\<lambda>frame hand_landmarks. Inr frame)\<rparr>"

definition frame_tick :: "landmark list list \<Rightarrow> int \<Rightarrow> tick" where
  "frame_tick hands k =
     \<lparr>t_read = Inr (True, camera_frame), t_flip = Inr camera_frame, t_hands = Inr hands,
      t_show = Inr (), t_wait_key = Inr k\<rparr>"

section \<open>Facts about the Python values\<close>

lemma bind_exc_Inl [simp]: "bind_exc (Inl e) f = Inl e"
  by (simp add: bind_exc_def)

lemma bind_exc_Inr [simp]: "bind_exc (Inr v) f = f v"
  by (simp add: bind_exc_def)

lemma py_index_in_range: "i < length xs \<Longrightarrow> py_index xs i = Inr (xs ! i)"
  by (simp add: py_index_def)

lemma py_index_beyond: "length xs \<le> i \<Longrightarrow> py_index xs i = Inl IndexError"
  by (simp add: py_index_def)

lemma float_lt_irrefl [simp]: "\<not> float_lt a a"
  by (cases a) simp_all

lemma float_gt_irrefl [simp]: "\<not> float_gt a a"
  by (simp add: float_gt_def)

lemma float_eq_imp_eq: "float_eq a b \<Longrightarrow> a = b"
  by (simp add: float_eq_def)

section \<open>The classifier on hands of 21 and more points\<close>

text \<open>With 21 points or more no index is out of range, and the block returns the conjunction.\<close>

lemma body_21:
  assumes "21 \<le> length landmarks"
  shows "is_middle_finger_up_body rnd landmarks =
           Inr (float_lt (lm_y (landmarks ! 12)) (lm_y (landmarks ! 10)) \<and>
                float_gt (lm_y (landmarks ! 8)) (lm_y (landmarks ! 6)) \<and>
                float_gt (lm_y (landmarks ! 16)) (lm_y (landmarks ! 14)) \<and>
                float_gt (lm_y (landmarks ! 20)) (lm_y (landmarks ! 18)))"
  using assms by (simp add: is_middle_finger_up_body_def py_index_in_range Let_def)

lemma up_21:
  assumes "21 \<le> length landmarks"
  shows "is_middle_finger_up rnd landmarks =
           Inr (float_lt (lm_y (landmarks ! 12)) (lm_y (landmarks ! 10)) \<and>
                float_gt (lm_y (landmarks ! 8)) (lm_y (landmarks ! 6)) \<and>
                float_gt (lm_y (landmarks ! 16)) (lm_y (landmarks ! 14)) \<and>
                float_gt (lm_y (landmarks ! 20)) (lm_y (landmarks ! 18)))"
  by (simp add: is_middle_finger_up_def body_21 [OF assms])

text \<open>With fewer than 21 points \<open>landmarks[20]\<close>, if not an earlier read, raises.\<close>

lemma body_short:
  assumes "length landmarks < 21"
  shows "is_middle_finger_up_body rnd landmarks = Inl IndexError"
proof -
  have p20: "py_index landmarks 20 = Inl IndexError"
    using assms by (simp add: py_index_def)
  have step: "bind_exc (py_index landmarks i) (\<lambda>v. Inl IndexError) = (Inl IndexError :: py_exception + bool)" for i
    by (simp add: py_index_def)
  show ?thesis
    unfolding is_middle_finger_up_body_def p20 bind_exc_Inl step ..
qed

lemma demo_hands_length:
  "length middle_finger_landmarks = 21" "length normal_hand_landmarks = 21"
  by (simp_all add: middle_finger_landmarks_def normal_hand_landmarks_def)

lemma up_total:
  "is_middle_finger_up rnd landmarks = Inr True \<or> is_middle_finger_up rnd landmarks = Inr False"
  by (auto simp: is_middle_finger_up_def split: sum.splits)

lemma up_short: "length landmarks < 21 \<Longrightarrow> is_middle_finger_up rnd landmarks = Inr False"
  by (simp add: is_middle_finger_up_def body_short)

lemma up_take_21:
  assumes "21 \<le> length landmarks"
  shows "is_middle_finger_up rnd (take 21 landmarks) = is_middle_finger_up rnd landmarks"
proof -
  have "21 \<le> length (take 21 landmarks)" using assms by simp
  then show ?thesis using assms by (simp add: up_21)
qed

lemma fixture_lengths:
  "length tie_hand = 21" "length scenario_a_hand = 21" "length scenario_b_hand = 21"
  by (simp_all add: tie_hand_def scenario_a_hand_def scenario_b_hand_def demo_hands_length)

lemma tie_hand_ys:
  "lm_y (tie_hand ! 12) = Fin 0.15" "lm_y (tie_hand ! 10) = Fin 0.45"
  "lm_y (tie_hand ! 8) = Fin 0.55" "lm_y (tie_hand ! 6) = Fin 0.55"
  "lm_y (tie_hand ! 16) = Fin 0.58" "lm_y (tie_hand ! 14) = Fin 0.55"
  "lm_y (tie_hand ! 20) = Fin 0.60" "lm_y (tie_hand ! 18) = Fin 0.58"
  by (simp_all add: tie_hand_def middle_finger_landmarks_def as_landmark_def)

lemma scenario_a_ys:
  "lm_y (scenario_a_hand ! 12) = Fin 0.15" "lm_y (scenario_a_hand ! 10) = Fin 0.25"
  "lm_y (scenario_a_hand ! 8) = Fin 0.58" "lm_y (scenario_a_hand ! 6) = Fin 0.50"
  "lm_y (scenario_a_hand ! 16) = Fin 0.58" "lm_y (scenario_a_hand ! 14) = Fin 0.50"
  "lm_y (scenario_a_hand ! 20) = Fin 0.60" "lm_y (scenario_a_hand ! 18) = Fin 0.53"
  by (simp_all add: scenario_a_hand_def middle_finger_landmarks_def as_landmark_def)

lemma scenario_b_ys:
  "lm_y (scenario_b_hand ! 12) = Fin 0.35" "lm_y (scenario_b_hand ! 10) = Fin 0.45"
  "lm_y (scenario_b_hand ! 8) = Fin 0.35" "lm_y (scenario_b_hand ! 6) = Fin 0.45"
  by (simp_all add: scenario_b_hand_def normal_hand_landmarks_def as_landmark_def)

text \<open>The demonstration's classifier on its own two hands, and its agreement with the detector's.\<close>

lemma demo_on_demo_hands:
  "is_middle_finger_gesture_demo middle_finger_landmarks = Inr True"
  "is_middle_finger_gesture_demo normal_hand_landmarks = Inr False"
  by (simp_all add: is_middle_finger_gesture_demo_def py_index_def
      middle_finger_landmarks_def normal_hand_landmarks_def)

lemma demo_agrees:
  assumes "21 \<le> length ps"
  shows "is_middle_finger_up rnd (map as_landmark ps) = is_middle_finger_gesture_demo ps"
proof -
  have "21 \<le> length (map as_landmark ps)" using assms by simp
  from up_21 [OF this] assms show ?thesis
    by (simp add: is_middle_finger_gesture_demo_def py_index_def as_landmark_def float_gt_def)
qed

section \<open>Claims about the classifier\<close>

text \<open>
  Claim C1. On every hand of exactly 21 points \<open>is_middle_finger_up\<close> returns, without
  raising, \<open>True\<close> (Flagged) exactly when the middle tip's \<open>y\<close> is strictly less than the
  middle PIP's (landmarks 12 and 10) and the index, ring and pinky tips' \<open>y\<close> are strictly
  greater than their PIPs' (8/6, 16/14, 20/18), and \<open>False\<close> (Normal) otherwise; replacing
  any of the thumb landmarks 1 to 4 by any point leaves the result as it is.
\<close>

theorem classify_21:
  assumes "length landmarks = 21"
  shows "is_middle_finger_up rnd landmarks =
           Inr (float_lt (lm_y (landmarks ! 12)) (lm_y (landmarks ! 10)) \<and>
                float_gt (lm_y (landmarks ! 8)) (lm_y (landmarks ! 6)) \<and>
                float_gt (lm_y (landmarks ! 16)) (lm_y (landmarks ! 14)) \<and>
                float_gt (lm_y (landmarks ! 20)) (lm_y (landmarks ! 18)))
         \<and> (\<forall>i p. 1 \<le> i \<and> i \<le> 4 \<longrightarrow>
               is_middle_finger_up rnd (landmarks[i := p]) = is_middle_finger_up rnd landmarks)"
proof -
  have len: "21 \<le> length landmarks" using assms by simp
  have thumb: "is_middle_finger_up rnd (landmarks[i := p]) = is_middle_finger_up rnd landmarks"
    if "1 \<le> i \<and> i \<le> 4" for i p
  proof -
    have "21 \<le> length (landmarks[i := p])" using len by simp
    then show ?thesis using that by (simp add: up_21 len)
  qed
  show ?thesis using up_21 [OF len] thumb by blast
qed

text \<open>
  C1 at the two hands of the demonstration: the first is flagged, also with its thumb tip
  moved elsewhere; the open hand is not.
\<close>

theorem classify_21_witness:
  "length (map as_landmark middle_finger_landmarks) = 21 \<and>
   is_middle_finger_up exact (map as_landmark middle_finger_landmarks) = Inr True \<and>
   is_middle_finger_up exact
     ((map as_landmark middle_finger_landmarks)[4 := as_landmark (0.9, 0.1)]) = Inr True \<and>
   is_middle_finger_up exact (map as_landmark normal_hand_landmarks) = Inr False"
proof -
  have a: "length (map as_landmark middle_finger_landmarks) = 21"
    by (simp add: demo_hands_length)
  have b: "length (map as_landmark normal_hand_landmarks) = 21"
    by (simp add: demo_hands_length)
  note ta = classify_21 [OF a, of exact]
  note tb = classify_21 [OF b, of exact]
  have 1: "is_middle_finger_up exact (map as_landmark middle_finger_landmarks) = Inr True"
    unfolding ta [THEN conjunct1]
    by (simp add: middle_finger_landmarks_def as_landmark_def float_gt_def)
  have 2: "is_middle_finger_up exact
             ((map as_landmark middle_finger_landmarks)[4 := as_landmark (0.9, 0.1)])
           = is_middle_finger_up exact (map as_landmark middle_finger_landmarks)"
    using ta [THEN conjunct2, rule_format, of 4 "as_landmark (0.9, 0.1)"] by simp
  have 3: "is_middle_finger_up exact (map as_landmark normal_hand_landmarks) = Inr False"
    unfolding tb [THEN conjunct1]
    by (simp add: normal_hand_landmarks_def as_landmark_def float_gt_def)
  show ?thesis using a 1 2 3 by simp
qed

text \<open>
  Claim C2, as the code has it. A hand of fewer than 21 points raises nothing and is
  Normal: the read of \<open>landmarks[20]\<close>, or an earlier one, raises \<open>IndexError\<close>, which
  the method catches. A hand of more than 21 points raises nothing either, but no read
  fails, nothing checks the length, and the verdict is the verdict of its first 21
  points.
\<close>

theorem classify_other_lengths:
  "(length landmarks < 21 \<longrightarrow> is_middle_finger_up rnd landmarks = Inr False) \<and>
   (21 < length landmarks \<longrightarrow>
      is_middle_finger_up rnd landmarks = is_middle_finger_up rnd (take 21 landmarks))"
  by (simp add: up_short up_take_21)

text \<open>C2 as amended, at the flagged demonstration hand cut to 20 points and extended to 22.\<close>

theorem classify_other_lengths_witness:
  "length (take 20 (map as_landmark middle_finger_landmarks)) < 21 \<and>
   is_middle_finger_up exact (take 20 (map as_landmark middle_finger_landmarks)) = Inr False \<and>
   21 < length (map as_landmark (middle_finger_landmarks @ [(0.5, 0.5)])) \<and>
   is_middle_finger_up exact (map as_landmark (middle_finger_landmarks @ [(0.5, 0.5)])) =
     is_middle_finger_up exact (take 21 (map as_landmark (middle_finger_landmarks @ [(0.5, 0.5)])))"
proof -
  have a: "length (take 20 (map as_landmark middle_finger_landmarks)) < 21"
    by (simp add: demo_hands_length)
  have b: "21 < length (map as_landmark (middle_finger_landmarks @ [(0.5, 0.5)]))"
    by (simp add: demo_hands_length)
  show ?thesis
    using a b
      classify_other_lengths [of "take 20 (map as_landmark middle_finger_landmarks)" exact]
      classify_other_lengths [of "map as_landmark (middle_finger_landmarks @ [(0.5, 0.5)])" exact]
    by blast
qed

text \<open>
  Claim C2 as stated fails: the flagged demonstration hand followed by a 22nd point has
  a length other than 21 and is Flagged.
\<close>

theorem classify_22_points_flagged:
  "length (map as_landmark (middle_finger_landmarks @ [(0.5, 0.5)])) \<noteq> 21 \<and>
   is_middle_finger_up exact (map as_landmark (middle_finger_landmarks @ [(0.5, 0.5)])) = Inr True"
proof -
  have "21 \<le> length (map as_landmark (middle_finger_landmarks @ [(0.5, 0.5)]))"
    by (simp add: demo_hands_length)
  from up_21 [OF this, of exact] show ?thesis
    by (simp add: middle_finger_landmarks_def as_landmark_def float_gt_def)
qed

text \<open>
  Claim C3, as the code has it. On a hand of 21 points whose middle finger is extended,
  whose ring and pinky are folded and whose index tip has exactly the \<open>y\<close> of its index
  PIP, the verdict is Normal: \<open>index_folded\<close> is the strict \<open>tip.y > pip.y\<close>, which
  equality does not satisfy.
\<close>

theorem index_tie_is_normal:
  assumes "length landmarks = 21"
    and "float_lt (lm_y (landmarks ! 12)) (lm_y (landmarks ! 10))"
    and "float_gt (lm_y (landmarks ! 16)) (lm_y (landmarks ! 14))"
    and "float_gt (lm_y (landmarks ! 20)) (lm_y (landmarks ! 18))"
    and "lm_y (landmarks ! 8) = lm_y (landmarks ! 6)"
  shows "is_middle_finger_up rnd landmarks = Inr False"
  using assms by (simp add: up_21)

text \<open>C3 as amended, at \<open>tie_hand\<close>.\<close>

theorem index_tie_is_normal_witness:
  "length tie_hand = 21 \<and>
   float_lt (lm_y (tie_hand ! 12)) (lm_y (tie_hand ! 10)) \<and>
   float_gt (lm_y (tie_hand ! 16)) (lm_y (tie_hand ! 14)) \<and>
   float_gt (lm_y (tie_hand ! 20)) (lm_y (tie_hand ! 18)) \<and>
   lm_y (tie_hand ! 8) = lm_y (tie_hand ! 6) \<and>
   is_middle_finger_up exact tie_hand = Inr False"
proof -
  have h: "float_lt (lm_y (tie_hand ! 12)) (lm_y (tie_hand ! 10))"
    "float_gt (lm_y (tie_hand ! 16)) (lm_y (tie_hand ! 14))"
    "float_gt (lm_y (tie_hand ! 20)) (lm_y (tie_hand ! 18))"
    "lm_y (tie_hand ! 8) = lm_y (tie_hand ! 6)"
    by (simp_all add: tie_hand_ys float_gt_def)
  from index_tie_is_normal [OF fixture_lengths(1) h, of exact] h fixture_lengths(1)
  show ?thesis by simp
qed

text \<open>
  Claim C3 as stated fails: \<open>tie_hand\<close> meets every condition of the claim and is not
  Flagged.
\<close>

theorem index_tie_not_flagged:
  "length tie_hand = 21 \<and>
   float_lt (lm_y (tie_hand ! 12)) (lm_y (tie_hand ! 10)) \<and>
   float_gt (lm_y (tie_hand ! 16)) (lm_y (tie_hand ! 14)) \<and>
   float_gt (lm_y (tie_hand ! 20)) (lm_y (tie_hand ! 18)) \<and>
   lm_y (tie_hand ! 8) = lm_y (tie_hand ! 6) \<and>
   is_middle_finger_up exact tie_hand \<noteq> Inr True"
proof -
  have "21 \<le> length tie_hand" by (simp add: fixture_lengths)
  from up_21 [OF this, of exact] show ?thesis
    by (simp add: tie_hand_ys fixture_lengths float_gt_def)
qed

text \<open>
  Claim C4. On every hand of 21 points in which at least one of the four compared pairs
  (middle 12/10, index 8/6, ring 16/14, pinky 20/18) has equal \<open>y\<close>, the verdict is
  Normal. Equality of the modelled values covers Python's \<open>==\<close> (\<open>float_eq\<close>) and, beyond
  it, two NaNs.
\<close>

theorem tie_is_normal:
  assumes "length landmarks = 21"
    and "lm_y (landmarks ! 12) = lm_y (landmarks ! 10) \<or>
         lm_y (landmarks ! 8) = lm_y (landmarks ! 6) \<or>
         lm_y (landmarks ! 16) = lm_y (landmarks ! 14) \<or>
         lm_y (landmarks ! 20) = lm_y (landmarks ! 18)"
  shows "is_middle_finger_up rnd landmarks = Inr False"
  using assms by (auto simp: up_21)

text \<open>C4 at \<open>tie_hand\<close>, whose index pair is tied.\<close>

theorem tie_is_normal_witness:
  "length tie_hand = 21 \<and>
   (lm_y (tie_hand ! 12) = lm_y (tie_hand ! 10) \<or>
    lm_y (tie_hand ! 8) = lm_y (tie_hand ! 6) \<or>
    lm_y (tie_hand ! 16) = lm_y (tie_hand ! 14) \<or>
    lm_y (tie_hand ! 20) = lm_y (tie_hand ! 18)) \<and>
   is_middle_finger_up exact tie_hand = Inr False"
proof -
  have h: "lm_y (tie_hand ! 12) = lm_y (tie_hand ! 10) \<or>
    lm_y (tie_hand ! 8) = lm_y (tie_hand ! 6) \<or>
    lm_y (tie_hand ! 16) = lm_y (tie_hand ! 14) \<or>
    lm_y (tie_hand ! 20) = lm_y (tie_hand ! 18)"
    by (simp add: tie_hand_ys)
  from tie_is_normal [OF fixture_lengths(1) h, of exact] h fixture_lengths(1)
  show ?thesis by simp
qed

text \<open>
  Claim C5. Every hand of 21 points with the \<open>y\<close> values of scenario A at the compared
  landmarks (middle tip 0.15, PIP 0.25; index tip 0.58, PIP 0.50; ring tip 0.58, PIP 0.50;
  pinky tip 0.60, PIP 0.53) is Flagged, and every hand of 21 points with those of
  scenario B (middle tip 0.35, PIP 0.45; index tip 0.35, PIP 0.45) is Normal. The decimal
  literals stand for the doubles nearest to them, which are ordered as the decimals are.
\<close>

theorem literal_scenarios:
  "(length landmarks = 21 \<and>
    lm_y (landmarks ! 12) = Fin 0.15 \<and> lm_y (landmarks ! 10) = Fin 0.25 \<and>
    lm_y (landmarks ! 8) = Fin 0.58 \<and> lm_y (landmarks ! 6) = Fin 0.50 \<and>
    lm_y (landmarks ! 16) = Fin 0.58 \<and> lm_y (landmarks ! 14) = Fin 0.50 \<and>
    lm_y (landmarks ! 20) = Fin 0.60 \<and> lm_y (landmarks ! 18) = Fin 0.53
    \<longrightarrow> is_middle_finger_up rnd landmarks = Inr True) \<and>
   (length landmarks = 21 \<and>
    lm_y (landmarks ! 12) = Fin 0.35 \<and> lm_y (landmarks ! 10) = Fin 0.45 \<and>
    lm_y (landmarks ! 8) = Fin 0.35 \<and> lm_y (landmarks ! 6) = Fin 0.45
    \<longrightarrow> is_middle_finger_up rnd landmarks = Inr False)"
  by (simp add: up_21 float_gt_def)

text \<open>C5 at \<open>scenario_a_hand\<close> and \<open>scenario_b_hand\<close>.\<close>

theorem literal_scenarios_witness:
  "length scenario_a_hand = 21 \<and>
   lm_y (scenario_a_hand ! 12) = Fin 0.15 \<and> lm_y (scenario_a_hand ! 10) = Fin 0.25 \<and>
   lm_y (scenario_a_hand ! 8) = Fin 0.58 \<and> lm_y (scenario_a_hand ! 6) = Fin 0.50 \<and>
   lm_y (scenario_a_hand ! 16) = Fin 0.58 \<and> lm_y (scenario_a_hand ! 14) = Fin 0.50 \<and>
   lm_y (scenario_a_hand ! 20) = Fin 0.60 \<and> lm_y (scenario_a_hand ! 18) = Fin 0.53 \<and>
   is_middle_finger_up exact scenario_a_hand = Inr True \<and>
   length scenario_b_hand = 21 \<and>
   lm_y (scenario_b_hand ! 12) = Fin 0.35 \<and> lm_y (scenario_b_hand ! 10) = Fin 0.45 \<and>
   lm_y (scenario_b_hand ! 8) = Fin 0.35 \<and> lm_y (scenario_b_hand ! 6) = Fin 0.45 \<and>
   is_middle_finger_up exact scenario_b_hand = Inr False"
  using literal_scenarios [of scenario_a_hand exact] literal_scenarios [of scenario_b_hand exact]
    fixture_lengths scenario_a_ys scenario_b_ys
  by blast

section \<open>The redactor\<close>

lemma fold_min_Min: "fold min xs (x::int) = Min (set (x # xs))"
  using Min.set_eq_fold [of x xs] by simp

lemma fold_max_Max: "fold max xs (x::int) = Max (set (x # xs))"
  using Max.set_eq_fold [of x xs] by simp

lemma box_bounds:
  assumes "hand_bounding_box rnd img landmarks = Inr (x_min, y_min, x_max, y_max)"
  shows "0 \<le> x_min" "0 \<le> y_min" "x_max \<le> int (img_w img)" "y_max \<le> int (img_h img)"
  using assms
  by (auto simp: hand_bounding_box_def bind_exc_def Let_def split: sum.splits)


lemma edge_x:
  "map_exc (\<lambda>landmark. py_int (float_mul_int exact (lm_x landmark) 640)) edge_hand =
     Inr [600, 570, 550, 530, 510, 580, 580, 580, 580, 600, 600, 600, 600, 620, 620, 620, 620,
          630, 630, 630, 630]"
  by (simp add: edge_hand_def edge_hand_points_def as_landmark_def exact_def)


lemma edge_y:
  "map_exc (\<lambda>landmark. py_int (float_mul_int exact (lm_y landmark) 480)) edge_hand =
     Inr [390, 360, 345, 330, 315, 315, 270, 240, 285, 315, 225, 120, 75, 315, 270, 240, 285,
          330, 285, 255, 300]"
  by (simp add: edge_hand_def edge_hand_points_def as_landmark_def exact_def)

lemma edge_box: "hand_bounding_box exact camera_frame edge_hand = Inr (460, 25, 640, 440)"
proof -
  have d: "img_h camera_frame = 480" "img_w camera_frame = 640"
    by (simp_all add: camera_frame_def)
  show ?thesis
    unfolding hand_bounding_box_def Let_def d edge_x edge_y bind_exc_Inr
    by simp
qed


lemma offscreen_x:
  "map_exc (\<lambda>landmark. py_int (float_mul_int exact (lm_x landmark) 640)) offscreen_hand =
     Inr [-200, -230, -250, -270, -290, -220, -220, -220, -220, -200, -200, -200, -200,
          -180, -180, -180, -180, -170, -170, -170, -170]"
  by (simp add: offscreen_hand_def edge_hand_points_def as_landmark_def exact_def)

lemma offscreen_y:
  "map_exc (\<lambda>landmark. py_int (float_mul_int exact (lm_y landmark) 480)) offscreen_hand =
     Inr [390, 360, 345, 330, 315, 315, 270, 240, 285, 315, 225, 120, 75, 315, 270, 240, 285,
          330, 285, 255, 300]"
  by (simp add: offscreen_hand_def edge_hand_points_def as_landmark_def exact_def)

lemma offscreen_box: "hand_bounding_box exact camera_frame offscreen_hand = Inr (0, 25, -120, 440)"
proof -
  have d: "img_h camera_frame = 480" "img_w camera_frame = 640"
    by (simp_all add: camera_frame_def)
  show ?thesis
    unfolding hand_bounding_box_def Let_def d offscreen_x offscreen_y bind_exc_Inr
    by simp
qed

lemma hands_flagged:
  "is_middle_finger_up exact edge_hand = Inr True"
  "is_middle_finger_up exact offscreen_hand = Inr True"
proof -
  have "21 \<le> length edge_hand" by (simp add: edge_hand_def edge_hand_points_def)
  from up_21 [OF this, of exact] show "is_middle_finger_up exact edge_hand = Inr True"
    by (simp add: edge_hand_def edge_hand_points_def as_landmark_def float_gt_def)
  have "21 \<le> length offscreen_hand" by (simp add: offscreen_hand_def edge_hand_points_def)
  from up_21 [OF this, of exact] show "is_middle_finger_up exact offscreen_hand = Inr True"
    by (simp add: offscreen_hand_def edge_hand_points_def as_landmark_def float_gt_def)
qed


lemma redactor_unfold:
  assumes "hand_bounding_box rnd img landmarks = Inr (x_min, y_min, x_max, y_max)"
  shows "blur_hand_region rnd gaussian_blur img landmarks k =
           (if 0 < img_size (slice2 img y_min y_max x_min x_max)
            then (case gaussian_blur (slice2 img y_min y_max x_min x_max) k of
                    Inl e \<Rightarrow> Inr img
                  | Inr blurred_region \<Rightarrow>
                      (case assign_slice2 img y_min y_max x_min x_max blurred_region of
                         Inl e \<Rightarrow> Inr img
                       | Inr img' \<Rightarrow> Inr img'))
            else Inr img)"
  by (simp add: blur_hand_region_def blur_hand_region_body_def assms bind_exc_def Let_def
      split: sum.splits)

lemma redactor_no_box:
  assumes "hand_bounding_box rnd img landmarks = Inl e"
  shows "blur_hand_region rnd gaussian_blur img landmarks k = Inr img"
  by (simp add: blur_hand_region_def blur_hand_region_body_def assms)

lemma redactor_total: "\<exists>img'. blur_hand_region rnd gaussian_blur img landmarks k = Inr img'"
  by (simp add: blur_hand_region_def split: sum.splits)

lemma assign_shape:
  assumes "assign_slice2 img y0 y1 x0 x1 v = Inr img'"
  shows "img_h img' = img_h img \<and> img_w img' = img_w img \<and> img_c img' = img_c img"
  using assms by (auto simp: assign_slice2_def Let_def split: if_splits)

lemma assign_outside:
  assumes "assign_slice2 img y0 y1 x0 x1 v = Inr img'"
    and "\<not> (slice_start y0 (img_h img) \<le> y \<and> y < slice_start y0 (img_h img) + slice_len y0 y1 (img_h img) \<and>
            slice_start x0 (img_w img) \<le> x \<and> x < slice_start x0 (img_w img) + slice_len x0 x1 (img_w img))"
  shows "img_data img' y x c = img_data img y x c"
  using assms by (auto simp: assign_slice2_def Let_def split: if_splits)

lemma redactor_shape:
  assumes "blur_hand_region rnd gaussian_blur img landmarks k = Inr img'"
  shows "img_h img' = img_h img \<and> img_w img' = img_w img \<and> img_c img' = img_c img"
proof (cases "hand_bounding_box rnd img landmarks")
  case (Inl e)
  from redactor_no_box [OF this] assms show ?thesis by simp
next
  case (Inr box)
  obtain x_min y_min x_max y_max where "box = (x_min, y_min, x_max, y_max)"
    by (cases box) auto
  with Inr have b: "hand_bounding_box rnd img landmarks = Inr (x_min, y_min, x_max, y_max)" by simp
  from assms show ?thesis
    unfolding redactor_unfold [OF b]
    by (auto split: if_splits sum.splits dest: assign_shape)
qed


lemma slice_in_box:
  assumes "0 \<le> a" "0 \<le> b" "b \<le> int n"
    and "slice_start a n \<le> i" "i < slice_start a n + slice_len a b n"
  shows "a \<le> int i \<and> int i < b"
  using assms by (auto simp: slice_start_def slice_len_def slice_bound_def split: if_splits)

lemma redactor_outside_box:
  assumes box: "hand_bounding_box rnd img landmarks = Inr (x_min, y_min, x_max, y_max)"
    and nonneg: "0 \<le> x_max" "0 \<le> y_max"
    and res: "blur_hand_region rnd gaussian_blur img landmarks k = Inr img'"
    and out: "\<not> (x_min \<le> int x \<and> int x < x_max \<and> y_min \<le> int y \<and> int y < y_max)"
  shows "img_data img' y x c = img_data img y x c"
proof -
  note bb = box_bounds [OF box]
  have notin: "\<not> (slice_start y_min (img_h img) \<le> y \<and>
                  y < slice_start y_min (img_h img) + slice_len y_min y_max (img_h img) \<and>
                  slice_start x_min (img_w img) \<le> x \<and>
                  x < slice_start x_min (img_w img) + slice_len x_min x_max (img_w img))"
    using out slice_in_box [OF bb(1) nonneg(1) bb(3), of x]
      slice_in_box [OF bb(2) nonneg(2) bb(4), of y]
    by blast
  from res show ?thesis
    unfolding redactor_unfold [OF box]
    by (auto split: if_splits sum.splits dest: assign_outside [OF _ notin])
qed

lemma offscreen_region:
  "slice2 camera_frame 25 440 0 (-120) =
     \<lparr>img_h = 415, img_w = 520, img_c = 3,
      img_data = (\<lambda>y x c. img_data camera_frame (25 + y) (0 + x) c)\<rparr>"
  by (simp add: slice2_def slice_len_def slice_start_def slice_bound_def camera_frame_def)

lemma offscreen_result:
  "blur_hand_region exact flatten_blur camera_frame offscreen_hand 51 =
     Inr (camera_frame\<lparr>img_data := (\<lambda>y x c.
            if 25 \<le> y \<and> y < 440 \<and> x < 520 \<and> c < 3 then img_data camera_frame 25 0 c
            else img_data camera_frame y x c)\<rparr>)"
  unfolding redactor_unfold [OF offscreen_box] offscreen_region
  by (simp add: img_size_def flatten_blur_def assign_slice2_def broadcasts_def
      slice_len_def slice_start_def slice_bound_def camera_frame_def fun_eq_iff)

lemma edge_region:
  "slice2 camera_frame 25 440 460 640 =
     \<lparr>img_h = 415, img_w = 180, img_c = 3,
      img_data = (\<lambda>y x c. img_data camera_frame (25 + y) (460 + x) c)\<rparr>"
  by (simp add: slice2_def slice_len_def slice_start_def slice_bound_def camera_frame_def)


section \<open>Claims about the redactor\<close>

text \<open>
  Claim C6, as the code has it. Whenever the box is computed (the landmark list is not
  empty and every pixel coordinate is a finite number), \<open>x_min \<ge> 0\<close>, \<open>y_min \<ge> 0\<close>,
  \<open>x_max \<le> w\<close> and \<open>y_max \<le> h\<close>: the upper bounds are clamped by \<open>min(w, ...)\<close> and
  \<open>min(h, ...)\<close> and are the exclusive ends of the slice, so they may equal \<open>w\<close> and \<open>h\<close>.
  Every pixel \<open>(x, y)\<close> with \<open>x_min \<le> x < x_max\<close> and \<open>y_min \<le> y < y_max\<close> lies in
  \<open>[0, w) \<times> [0, h)\<close>, wherever the landmarks are.
\<close>

theorem bounding_box_within_frame:
  assumes "hand_bounding_box rnd img landmarks = Inr (x_min, y_min, x_max, y_max)"
  shows "0 \<le> x_min \<and> 0 \<le> y_min \<and> x_max \<le> int (img_w img) \<and> y_max \<le> int (img_h img) \<and>
         (\<forall>x y. x_min \<le> x \<and> x < x_max \<and> y_min \<le> y \<and> y < y_max \<longrightarrow>
                0 \<le> x \<and> x < int (img_w img) \<and> 0 \<le> y \<and> y < int (img_h img))"
  using box_bounds [OF assms] by auto

text \<open>C6 as amended, at \<open>edge_hand\<close> in the 640 by 480 frame and the box's last pixel.\<close>

theorem bounding_box_within_frame_witness:
  "hand_bounding_box exact camera_frame edge_hand = Inr (460, 25, 640, 440) \<and>
   (0::int) \<le> 460 \<and> (0::int) \<le> 25 \<and> 640 \<le> int (img_w camera_frame) \<and>
   440 \<le> int (img_h camera_frame) \<and>
   (0::int) \<le> 639 \<and> 639 < int (img_w camera_frame) \<and> (0::int) \<le> 439 \<and>
   439 < int (img_h camera_frame)"
  using bounding_box_within_frame [OF edge_box] edge_box
  by (simp add: camera_frame_def)

text \<open>
  Claim C6 as stated fails: for \<open>edge_hand\<close>, which lies inside the frame, \<open>x_max\<close> is the
  frame's width 640, not less.
\<close>

theorem box_reaches_frame_width:
  "hand_bounding_box exact camera_frame edge_hand = Inr (460, 25, 640, 440) \<and>
   \<not> ((640::int) < int (img_w camera_frame))"
  using edge_box by (simp add: camera_frame_def)

text \<open>
  Claim C7 at \<open>offscreen_hand\<close>. The box is \<open>(0, 25, -120, 440)\<close>: no column \<open>x\<close> has
  \<open>0 \<le> x < -120\<close>, so every pixel is outside the box. The slice \<open>image[25:440, 0:-120]\<close>
  counts \<open>-120\<close> from the right edge and is columns 0 to 519; they are blurred. The pixel
  in row 25, column 1, channel 0 changes from 26 to 25.
\<close>

theorem offscreen_hand_blurs_outside_box:
  "hand_bounding_box exact camera_frame offscreen_hand = Inr (0, 25, -120, 440) \<and>
   blur_hand_region exact flatten_blur camera_frame offscreen_hand 51 =
     Inr (camera_frame\<lparr>img_data := (\<lambda>y x c.
            if 25 \<le> y \<and> y < 440 \<and> x < 520 \<and> c < 3 then img_data camera_frame 25 0 c
            else img_data camera_frame y x c)\<rparr>) \<and>
   img_data camera_frame 25 1 0 = 26 \<and> img_data camera_frame 25 0 0 = 25"
  using offscreen_box offscreen_result by (simp add: camera_frame_def)

text \<open>
  Claim C8 at \<open>offscreen_hand\<close>. The clamped bounds are inverted (\<open>x_max = -120 < 0 = x_min\<close>),
  so the box has no area; yet \<open>hand_region.size\<close> is \<open>415 * 520 * 3\<close>, the blur runs and
  the returned frame is not the frame passed in.
\<close>

theorem inverted_box_is_blurred:
  "hand_bounding_box exact camera_frame offscreen_hand = Inr (0, 25, -120, 440) \<and>
   img_size (slice2 camera_frame 25 440 0 (-120)) = 647400 \<and>
   blur_hand_region exact flatten_blur camera_frame offscreen_hand 51 \<noteq> Inr camera_frame"
proof -
  have size: "img_size (slice2 camera_frame 25 440 0 (-120)) = 647400"
    unfolding offscreen_region by (simp add: img_size_def)
  have "blur_hand_region exact flatten_blur camera_frame offscreen_hand 51 \<noteq> Inr camera_frame"
  proof
    assume "blur_hand_region exact flatten_blur camera_frame offscreen_hand 51 = Inr camera_frame"
    then have "img_data (camera_frame\<lparr>img_data := (\<lambda>y x c.
            if 25 \<le> y \<and> y < 440 \<and> x < 520 \<and> c < 3 then img_data camera_frame 25 0 c
            else img_data camera_frame y x c)\<rparr>) 25 1 0 = img_data camera_frame 25 1 0"
      unfolding offscreen_result by simp
    then show False by (simp add: camera_frame_def)
  qed
  with offscreen_box size show ?thesis by simp
qed

text \<open>
  Claim C10. For every frame, landmark list, blur function and kernel size
  \<open>blur_hand_region\<close> returns a frame and raises nothing; whenever its block raises, and in
  particular whenever the blur itself raises on the extracted region, the frame
  returned is the frame passed in, unchanged.
\<close>

theorem redactor_never_raises:
  "(\<exists>img'. blur_hand_region rnd gaussian_blur img landmarks k = Inr img') \<and>
   (\<forall>e. blur_hand_region_body rnd gaussian_blur img landmarks k = Inl e \<longrightarrow>
        blur_hand_region rnd gaussian_blur img landmarks k = Inr img) \<and>
   (\<forall>x_min y_min x_max y_max e.
        hand_bounding_box rnd img landmarks = Inr (x_min, y_min, x_max, y_max) \<and>
        0 < img_size (slice2 img y_min y_max x_min x_max) \<and>
        gaussian_blur (slice2 img y_min y_max x_min x_max) k = Inl e \<longrightarrow>
        blur_hand_region rnd gaussian_blur img landmarks k = Inr img)"
proof -
  have 1: "\<exists>img'. blur_hand_region rnd gaussian_blur img landmarks k = Inr img'"
    by (rule redactor_total)
  have 2: "blur_hand_region rnd gaussian_blur img landmarks k = Inr img"
    if "blur_hand_region_body rnd gaussian_blur img landmarks k = Inl e" for e
    using that by (simp add: blur_hand_region_def)
  have 3: "blur_hand_region rnd gaussian_blur img landmarks k = Inr img"
    if "hand_bounding_box rnd img landmarks = Inr (x_min, y_min, x_max, y_max) \<and>
        0 < img_size (slice2 img y_min y_max x_min x_max) \<and>
        gaussian_blur (slice2 img y_min y_max x_min x_max) k = Inl e"
    for x_min y_min x_max y_max e
    using that redactor_unfold [of rnd img landmarks x_min y_min x_max y_max gaussian_blur k]
    by simp
  show ?thesis using 1 2 3 by blast
qed

text \<open>C10 at \<open>edge_hand\<close> with the even kernel size 50 and the negative kernel size -3.\<close>

theorem redactor_never_raises_witness:
  "hand_bounding_box exact camera_frame edge_hand = Inr (460, 25, 640, 440) \<and>
   0 < img_size (slice2 camera_frame 25 440 460 640) \<and>
   flatten_blur (slice2 camera_frame 25 440 460 640) 50 = Inl LibraryError \<and>
   blur_hand_region exact flatten_blur camera_frame edge_hand 50 = Inr camera_frame \<and>
   flatten_blur (slice2 camera_frame 25 440 460 640) (-3) = Inl LibraryError \<and>
   blur_hand_region exact flatten_blur camera_frame edge_hand (-3) = Inr camera_frame"
proof -
  have s: "0 < img_size (slice2 camera_frame 25 440 460 640)"
    unfolding edge_region by (simp add: img_size_def)
  have b: "flatten_blur (slice2 camera_frame 25 440 460 640) 50 = Inl LibraryError"
    "flatten_blur (slice2 camera_frame 25 440 460 640) (-3) = Inl LibraryError"
    by (simp_all add: flatten_blur_def)
  from redactor_never_raises [of exact flatten_blur camera_frame edge_hand 50]
  have 1: "blur_hand_region exact flatten_blur camera_frame edge_hand 50 = Inr camera_frame"
    using edge_box s b(1) by blast
  from redactor_never_raises [of exact flatten_blur camera_frame edge_hand "-3"]
  have 2: "blur_hand_region exact flatten_blur camera_frame edge_hand (-3) = Inr camera_frame"
    using edge_box s b(2) by blast
  show ?thesis using edge_box s b 1 2 by simp
qed

section \<open>Frame processing and the loop\<close>

lemma spec_counter_append:
  "spec_counter c (es @ fs) = spec_counter (spec_counter c es) fs"
  by (induction c es rule: spec_counter.induct) simp_all

lemma iteration_refines:
  "loop_iteration ext c t =
     (spec_counter c (fst (iteration_events ext t)), snd (iteration_events ext t))"
  by (simp add: loop_iteration_def iteration_events_def frame_outcome_def key_outcome_def Let_def
      split: sum.splits prod.splits)

lemma loop_refines: "main_loop ext c ticks = spec_counter c (loop_events ext ticks)"
proof (induction ticks arbitrary: c)
  case Nil
  show ?case by simp
next
  case (Cons t ts)
  show ?case
  proof (cases "iteration_events ext t")
    case (Pair es go)
    with iteration_refines [of ext c t]
    have it: "loop_iteration ext c t = (spec_counter c es, go)" by simp
    show ?thesis
      by (cases go) (simp_all add: it Pair Cons.IH spec_counter_append)
  qed
qed

lemma hands_flag_sound:
  assumes "process_hands ext frame detected hands = (frame', Inr True)"
  shows "detected \<or> (\<exists>h\<in>set hands. is_middle_finger_up (ext_rnd ext) h = Inr True)"
  using assms
proof (induction hands arbitrary: frame detected)
  case Nil
  then show ?case by simp
next
  case (Cons h hands)
  then show ?case
    by (fastforce split: sum.splits bool.splits)
qed

lemma hands_flag_complete:
  assumes put: "\<forall>f. \<exists>f'. ext_put_text ext f = Inr f'"
    and draw: "\<forall>f h. \<exists>f'. ext_draw_landmarks ext f h = Inr f'"
  shows "\<exists>frame'. process_hands ext frame detected hands =
           (frame', Inr (detected \<or> (\<exists>h\<in>set hands. is_middle_finger_up (ext_rnd ext) h = Inr True)))"
proof (induction hands arbitrary: frame detected)
  case Nil
  show ?case by simp
next
  case (Cons h hands)
  show ?case
  proof (cases "is_middle_finger_up (ext_rnd ext) h = Inr True")
    case True
    obtain f1 where b: "blur_hand_region (ext_rnd ext) (ext_blur ext) frame h 51 = Inr f1"
      using redactor_total by blast
    obtain f2 where p: "ext_put_text ext f1 = Inr f2" using put by blast
    from Cons.IH [of f2 True] show ?thesis by (simp add: True b p)
  next
    case False
    with up_total [of "ext_rnd ext" h]
    have n: "is_middle_finger_up (ext_rnd ext) h = Inr False" by blast
    obtain f1 where d: "ext_draw_landmarks ext frame h = Inr f1" using draw by blast
    from Cons.IH [of f1 detected] show ?thesis by (simp add: n d)
  qed
qed

lemma frame_flag_sound:
  assumes "process_frame ext frame provided = Inr (frame', True)"
  shows "\<exists>hands. provided = Inr hands \<and>
           (\<exists>h\<in>set hands. is_middle_finger_up (ext_rnd ext) h = Inr True)"
  using assms hands_flag_sound [of ext frame False]
  by (auto simp: process_frame_def split: sum.splits prod.splits)

lemma frame_flag_complete:
  assumes put: "\<forall>f. \<exists>f'. ext_put_text ext f = Inr f'"
    and draw: "\<forall>f h. \<exists>f'. ext_draw_landmarks ext f h = Inr f'"
  shows "\<exists>frame'. process_frame ext frame (Inr hands) =
           Inr (frame', \<exists>h\<in>set hands. is_middle_finger_up (ext_rnd ext) h = Inr True)"
proof -
  from hands_flag_complete [OF put draw, of frame False hands]
  obtain f' where "process_hands ext frame False hands =
           (f', Inr (\<exists>h\<in>set hands. is_middle_finger_up (ext_rnd ext) h = Inr True))"
    by auto
  then show ?thesis by (simp add: process_frame_def)
qed

lemma process_frame_total: "\<exists>frame' detected. process_frame ext frame provided = Inr (frame', detected)"
  by (auto simp: process_frame_def split: sum.splits prod.splits)

lemma key_codes:
  "key_outcome (frame_tick hands (-1)) = Some 255"
  "key_outcome (frame_tick hands 114) = Some 114"
  "key_outcome (frame_tick hands 113) = Some 113"
  by (simp_all add: key_outcome_def frame_tick_def)

lemma normal_hand_not_flagged:
  "is_middle_finger_up exact (map as_landmark normal_hand_landmarks) = Inr False"
proof -
  have "21 \<le> length (map as_landmark normal_hand_landmarks)"
    by (simp add: demo_hands_length)
  from up_21 [OF this, of exact] show ?thesis
    by (simp add: normal_hand_landmarks_def as_landmark_def float_gt_def)
qed

section \<open>Claim about the session counter\<close>

text \<open>
  Claim C9. For every sequence of iterations the loop's \<open>detection_count\<close> is the
  specification's counter run over the loop's events: each processed frame adds exactly
  one when \<open>process_frame\<close> reported a flagged hand and nothing otherwise, a reset key
  makes it zero whatever it was, and nothing else changes it. The reported flag is a
  single boolean however many hands are flagged: it is true only for a frame with at
  least one flagged hand, and, when no drawing call raises, exactly for those frames.
\<close>

theorem detection_counter:
  "main_loop ext c ticks = spec_counter c (loop_events ext ticks) \<and>
   (\<forall>frame provided frame'.
      process_frame ext frame provided = Inr (frame', True) \<longrightarrow>
      (\<exists>hands. provided = Inr hands \<and>
         (\<exists>h\<in>set hands. is_middle_finger_up (ext_rnd ext) h = Inr True))) \<and>
   ((\<forall>f. \<exists>f'. ext_put_text ext f = Inr f') \<and>
    (\<forall>f h. \<exists>f'. ext_draw_landmarks ext f h = Inr f') \<longrightarrow>
    (\<forall>frame hands. \<exists>frame'.
       process_frame ext frame (Inr hands) =
         Inr (frame', \<exists>h\<in>set hands. is_middle_finger_up (ext_rnd ext) h = Inr True)))"
  using loop_refines frame_flag_sound frame_flag_complete by blast

text \<open>
  C9 on a run of five iterations: a frame with two flagged hands counts once, an open
  hand counts nothing, a flagged frame followed by \<open>r\<close> leaves zero (also from 7), and
  after \<open>q\<close> nothing is counted any more.
\<close>

theorem detection_counter_witness:
  "loop_events quiet_externals
     [frame_tick [edge_hand, offscreen_hand] (-1),
      frame_tick [map as_landmark normal_hand_landmarks] (-1),
      frame_tick [edge_hand] 114,
      frame_tick [] 113,
      frame_tick [edge_hand] (-1)] =
     [FrameProcessed True, FrameProcessed False, FrameProcessed True, ResetSignal,
      FrameProcessed False] \<and>
   main_loop quiet_externals 0 [frame_tick [edge_hand, offscreen_hand] (-1)] = 1 \<and>
   main_loop quiet_externals 0
     [frame_tick [edge_hand, offscreen_hand] (-1),
      frame_tick [map as_landmark normal_hand_landmarks] (-1)] = 1 \<and>
   main_loop quiet_externals 7 [frame_tick [edge_hand] 114] = 0 \<and>
   main_count quiet_externals
     [frame_tick [edge_hand, offscreen_hand] (-1),
      frame_tick [map as_landmark normal_hand_landmarks] (-1),
      frame_tick [edge_hand] 114,
      frame_tick [] 113,
      frame_tick [edge_hand] (-1)] = 0"
proof -
  note T = detection_counter [of quiet_externals]
  have ok: "(\<forall>f. \<exists>f'. ext_put_text quiet_externals f = Inr f') \<and>
            (\<forall>f h. \<exists>f'. ext_draw_landmarks quiet_externals f h = Inr f')"
    by (simp add: quiet_externals_def)
  have rnd: "ext_rnd quiet_externals = exact" by (simp add: quiet_externals_def)
  have flag: "\<exists>frame'. process_frame quiet_externals camera_frame (Inr hands) =
                Inr (frame', \<exists>h\<in>set hands. is_middle_finger_up exact h = Inr True)" for hands
    using T [of 0 "[]"] ok unfolding rnd by blast
  have outcome: "frame_outcome quiet_externals (frame_tick hands k) =
                   Some (\<exists>h\<in>set hands. is_middle_finger_up exact h = Inr True)" for hands k
    using flag [of hands] by (auto simp: frame_outcome_def frame_tick_def)
  have o1: "frame_outcome quiet_externals (frame_tick [edge_hand, offscreen_hand] k) = Some True" for k
    unfolding outcome by (simp add: hands_flagged)
  have o2: "frame_outcome quiet_externals
              (frame_tick [map as_landmark normal_hand_landmarks] k) = Some False" for k
    unfolding outcome by (simp add: normal_hand_not_flagged)
  have o3: "frame_outcome quiet_externals (frame_tick [edge_hand] k) = Some True" for k
    unfolding outcome by (simp add: hands_flagged)
  have o4: "frame_outcome quiet_externals (frame_tick [] k) = Some False" for k
    unfolding outcome by simp
  have ev: "loop_events quiet_externals
     [frame_tick [edge_hand, offscreen_hand] (-1),
      frame_tick [map as_landmark normal_hand_landmarks] (-1),
      frame_tick [edge_hand] 114,
      frame_tick [] 113,
      frame_tick [edge_hand] (-1)] =
     [FrameProcessed True, FrameProcessed False, FrameProcessed True, ResetSignal,
      FrameProcessed False]"
    by (simp add: iteration_events_def o1 o2 o3 o4 key_codes)
  have ev1: "loop_events quiet_externals [frame_tick [edge_hand, offscreen_hand] (-1)] =
               [FrameProcessed True]"
    by (simp add: iteration_events_def o1 key_codes)
  have ev2: "loop_events quiet_externals
     [frame_tick [edge_hand, offscreen_hand] (-1),
      frame_tick [map as_landmark normal_hand_landmarks] (-1)] =
     [FrameProcessed True, FrameProcessed False]"
    by (simp add: iteration_events_def o1 o2 key_codes)
  have ev3: "loop_events quiet_externals [frame_tick [edge_hand] 114] =
               [FrameProcessed True, ResetSignal]"
    by (simp add: iteration_events_def o3 key_codes)
  show ?thesis
    unfolding main_count_def T [THEN conjunct1] ev ev1 ev2 ev3 by simp
qed

end
